theory Spec2Isabelle
  imports Main
begin

section \<open>JavaScript values\<close>

text \<open>
  The values that cross the extension's context boundaries are JSON documents. A JavaScript
  string is modelled as a \<open>string\<close> whose characters are the code units 0..255 (the
  range \<open>btoa\<close> accepts); a number is modelled as a mathematical integer (the token
  fields \<open>exp\<close> and \<open>iat\<close> are whole seconds), so a number with a fraction or an
  exponent has no value in this model. An object is its list of own properties in insertion
  order. \<open>None\<close> of type \<open>json option\<close> is \<open>undefined\<close>.
\<close>

datatype json =
    JNull
  | JBool bool
  | JNum int
  | JStr string
  | JArr "json list"
  | JObj "(string \<times> json) list"

text \<open>Truthiness, as used by \<open>!x\<close>, \<open>x && y\<close> and \<open>if (x)\<close>.\<close>

fun js_truthy :: "json option \<Rightarrow> bool" where
  "js_truthy None = False"
| "js_truthy (Some JNull) = False"
| "js_truthy (Some (JBool b)) = b"
| "js_truthy (Some (JNum n)) = (n \<noteq> 0)"
| "js_truthy (Some (JStr s)) = (s \<noteq> [])"
| "js_truthy (Some (JArr xs)) = True"
| "js_truthy (Some (JObj ps)) = True"

text \<open>\<open>typeof x === 'string'\<close>.\<close>

fun js_is_string :: "json option \<Rightarrow> bool" where
  "js_is_string (Some (JStr s)) = True"
| "js_is_string v = False"

fun js_string_of :: "json option \<Rightarrow> string" where
  "js_string_of (Some (JStr s)) = s"
| "js_string_of v = []"

text \<open>Truthiness of a value that is a string or \<open>null\<close>/\<open>undefined\<close>.\<close>

definition str_truthy :: "string option \<Rightarrow> bool" where
  "str_truthy v = (case v of None \<Rightarrow> False | Some s \<Rightarrow> s \<noteq> [])"

text \<open>
  Everything the token code can throw. The first five are the \<open>new Error(...)\<close> of
  jwt-utils.js and page-jwt-utils.js (their messages are 'Invalid token format', 'Invalid token
  structure', 'Invalid algorithm', 'Token expired', 'Invalid signature'); the others are
  raised by built-ins: \<open>atob\<close> (InvalidCharacterError), \<open>JSON.parse\<close> (SyntaxError),
  a property read on \<open>null\<close> (TypeError) and \<open>chrome.storage.local\<close> (StorageError).
\<close>

datatype jwt_error =
    InvalidTokenFormat
  | InvalidTokenStructure
  | InvalidAlgorithm
  | TokenExpired
  | InvalidSignature
  | InvalidCharacterError
  | SyntaxError
  | TypeError
  | StorageError

text \<open>
  The property read \<open>v.k\<close> on a parsed JSON value, for a key \<open>k\<close> that no built-in
  prototype defines (the code reads \<open>alg\<close> and \<open>exp\<close>): it throws on \<open>null\<close>, gives
  the own property of an object and \<open>undefined\<close> on every other value.
\<close>

fun js_prop :: "json \<Rightarrow> string \<Rightarrow> jwt_error + json option" where
  "js_prop JNull k = Inl TypeError"
| "js_prop (JObj ps) k = Inr (map_of ps k)"
| "js_prop v k = Inr None"

text \<open>Assignment \<open>o[k] = v\<close>: an existing key keeps its position, a new key is appended.\<close>

fun obj_set :: "string \<Rightarrow> json \<Rightarrow> (string \<times> json) list \<Rightarrow> (string \<times> json) list" where
  "obj_set k v [] = [(k, v)]"
| "obj_set k v ((k', v') # ps) = (if k' = k then (k, v) # ps else (k', v') # obj_set k v ps)"

text \<open>
  The object literal \<open>{ ...base, ...extra }\<close>. A new key is appended; JavaScript lists a key
  that is an array index before the others, which changes the order of the properties but no
  property read.
\<close>

fun obj_spread :: "(string \<times> json) list \<Rightarrow> (string \<times> json) list \<Rightarrow> (string \<times> json) list" where
  "obj_spread base [] = base"
| "obj_spread base ((k, v) # extra) = obj_spread (obj_set k v base) extra"

text \<open>\<open>str.split(c)\<close> for a one-character separator.\<close>

fun split_on :: "char \<Rightarrow> string \<Rightarrow> string list" where
  "split_on c [] = [[]]"
| "split_on c (x # xs) =
     (if x = c then [] # split_on c xs
      else (case split_on c xs of [] \<Rightarrow> [[x]] | p # ps \<Rightarrow> (x # p) # ps))"

section \<open>The JavaScript runtime\<close>

text \<open>
  The built-ins the code calls are parameters of the model: \<open>JSON.stringify\<close>,
  \<open>JSON.parse\<close> (\<open>None\<close> when it throws), \<open>btoa\<close>, \<open>atob\<close> (\<open>None\<close> when it
  throws), HMAC-SHA256 of \<open>crypto.subtle\<close> (key first, then data; the result is the 32 bytes as
  a binary string), the bytes \<open>crypto.getRandomValues\<close> delivers, and the numeric value of a
  string, array or object (\<open>None\<close> is NaN).
\<close>

record runtime =
  JSON_stringify :: "json \<Rightarrow> string"
  JSON_parse :: "string \<Rightarrow> json option"
  btoa :: "string \<Rightarrow> string"
  atob :: "string \<Rightarrow> string option"
  hmac_sha256 :: "string \<Rightarrow> string \<Rightarrow> string"
  getRandomValues :: "int list"
  ToNumber :: "json \<Rightarrow> int option"

text \<open>The numeric value of a JSON value; \<open>None\<close> is NaN.\<close>

fun js_to_number :: "runtime \<Rightarrow> json option \<Rightarrow> int option" where
  "js_to_number P None = None"
| "js_to_number P (Some JNull) = Some 0"
| "js_to_number P (Some (JBool b)) = Some (if b then 1 else 0)"
| "js_to_number P (Some (JNum n)) = Some n"
| "js_to_number P (Some v) = ToNumber P v"

text \<open>\<open>v < n\<close> and \<open>v - n\<close> for a number \<open>n\<close>; a comparison with NaN is false.\<close>

definition js_lt :: "runtime \<Rightarrow> json option \<Rightarrow> int \<Rightarrow> bool" where
  "js_lt P v n = (case js_to_number P v of None \<Rightarrow> False | Some m \<Rightarrow> m < n)"

definition js_minus :: "runtime \<Rightarrow> json option \<Rightarrow> int \<Rightarrow> int option" where
  "js_minus P v n = (case js_to_number P v of None \<Rightarrow> None | Some m \<Rightarrow> Some (m - n))"

section \<open>jwt-utils.js\<close>

text \<open>
  The \<open>JWTUtils\<close> instance of the service worker together with \<open>chrome.storage.local\<close>:
  \<open>secretKey\<close> is \<open>this.secretKey\<close>, the two \<open>stored\<close> fields are the storage keys
  \<open>jwtSecretKey\<close> and \<open>currentJWT\<close>, and \<open>storage_available\<close> says whether the storage
  calls succeed (they throw otherwise).
\<close>

record jwt_state =
  secretKey :: "string option"
  stored_jwtSecretKey :: "string option"
  stored_currentJWT :: "string option"
  storage_available :: bool

definition algorithm :: string where
  "algorithm = ''HS256''"

text \<open>\<open>this.tokenExpiry\<close>, in milliseconds.\<close>

definition tokenExpiry :: int where
  "tokenExpiry = 15 * 60 * 1000"

definition hex_digit :: "int \<Rightarrow> char" where
  "hex_digit n = ''0123456789abcdef'' ! nat (n mod 16)"

text \<open>\<open>byte.toString(16).padStart(2, '0')\<close> for each byte, joined.\<close>

definition generateSecretKey :: "runtime \<Rightarrow> string" where
  "generateSecretKey P =
     concat (map (\<lambda>byte. [hex_digit (byte div 16), hex_digit byte]) (getRandomValues P))"

definition initializeSecretKey :: "runtime \<Rightarrow> jwt_state \<Rightarrow> (jwt_error + string) \<times> jwt_state" where
  "initializeSecretKey P st =
     (if \<not> storage_available st then (Inl StorageError, st)
      else if str_truthy (stored_jwtSecretKey st)
      then (Inr (the (stored_jwtSecretKey st)), st\<lparr>secretKey := stored_jwtSecretKey st\<rparr>)
      else (Inr (generateSecretKey P),
            st\<lparr>secretKey := Some (generateSecretKey P),
               stored_jwtSecretKey := Some (generateSecretKey P)\<rparr>))"

text \<open>\<open>if (!this.secretKey) { await this.initializeSecretKey(); }\<close>\<close>

definition ensureSecretKey :: "runtime \<Rightarrow> jwt_state \<Rightarrow> (jwt_error + string) \<times> jwt_state" where
  "ensureSecretKey P st =
     (if \<not> str_truthy (secretKey st) then initializeSecretKey P st
      else (Inr (the (secretKey st)), st))"

definition createHeader :: json where
  "createHeader = JObj [(''alg'', JStr algorithm), (''typ'', JStr ''JWT'')]"

text \<open>\<open>now\<close> is \<open>Date.now()\<close>, in milliseconds.\<close>

definition createPayload :: "int \<Rightarrow> (string \<times> json) list \<Rightarrow> json" where
  "createPayload now customClaims =
     JObj (obj_spread
       [(''iss'', JStr ''whatsupgemini-extension''),
        (''sub'', JStr ''store-access''),
        (''aud'', JStr ''whatsapp-web''),
        (''exp'', JNum ((now + tokenExpiry) div 1000)),
        (''iat'', JNum (now div 1000)),
        (''scope'', JArr [JStr ''store-read'', JStr ''audio-extract''])]
       customClaims)"

definition base64URLEncode :: "runtime \<Rightarrow> string \<Rightarrow> string" where
  "base64URLEncode P str =
     filter (\<lambda>c. c \<noteq> CHR ''='')
       (map (\<lambda>c. if c = CHR ''/'' then CHR ''_'' else c)
         (map (\<lambda>c. if c = CHR ''+'' then CHR ''-'' else c) (btoa P str)))"

definition base64URLDecode :: "runtime \<Rightarrow> string \<Rightarrow> string option" where
  "base64URLDecode P str =
     atob P
       (map (\<lambda>c. if c = CHR ''_'' then CHR ''/'' else c)
         (map (\<lambda>c. if c = CHR ''-'' then CHR ''+'' else c)
           (str @ replicate ((4 - length str mod 4) mod 4) CHR ''='')))"

text \<open>
  \<open>createSignature(data, key)\<close> followed by \<open>String.fromCharCode.apply(null, Array.from(...))\<close>:
  the HMAC as a binary string.
\<close>

definition createSignature :: "runtime \<Rightarrow> string \<Rightarrow> string \<Rightarrow> string" where
  "createSignature P data key = hmac_sha256 P key data"

text \<open>\<open>JSON.parse(this.base64URLDecode(segment))\<close>\<close>

definition parseSegment :: "runtime \<Rightarrow> string \<Rightarrow> jwt_error + json" where
  "parseSegment P segment =
     (case base64URLDecode P segment of
        None \<Rightarrow> Inl InvalidCharacterError
      | Some s \<Rightarrow> (case JSON_parse P s of None \<Rightarrow> Inl SyntaxError | Some v \<Rightarrow> Inr v))"

text \<open>\<open>generateToken\<close> rethrows what it catches: \<open>Inl\<close> is the exception.\<close>

definition generateToken ::
  "runtime \<Rightarrow> int \<Rightarrow> jwt_state \<Rightarrow> (string \<times> json) list \<Rightarrow> (jwt_error + string) \<times> jwt_state" where
  "generateToken P now st customClaims =
     (case ensureSecretKey P st of
        (Inl e, st') \<Rightarrow> (Inl e, st')
      | (Inr key, st') \<Rightarrow>
          (let header = createHeader;
               payload = createPayload now customClaims;
               encodedHeader = base64URLEncode P (JSON_stringify P header);
               encodedPayload = base64URLEncode P (JSON_stringify P payload);
               data = encodedHeader @ ''.'' @ encodedPayload;
               encodedSignature = base64URLEncode P (createSignature P data key)
           in (Inr (data @ ''.'' @ encodedSignature), st')))"

text \<open>
  The result of a validation: \<open>{ valid: true, payload, note }\<close> (the note is absent in
  jwt-utils.js) or \<open>{ valid: false, error }\<close>.
\<close>

datatype validation =
    Valid json "string option"
  | Invalid jwt_error

text \<open>
  \<open>validateToken\<close>: every exception of the body is caught and becomes \<open>Invalid\<close>.
\<close>

definition validateToken ::
  "runtime \<Rightarrow> int \<Rightarrow> jwt_state \<Rightarrow> json option \<Rightarrow> validation \<times> jwt_state" where
  "validateToken P now st token =
     (if \<not> js_truthy token \<or> \<not> js_is_string token then (Invalid InvalidTokenFormat, st)
      else
        (case split_on CHR ''.'' (js_string_of token) of
           [encodedHeader, encodedPayload, encodedSignature] \<Rightarrow>
             (case parseSegment P encodedHeader of
                Inl e \<Rightarrow> (Invalid e, st)
              | Inr header \<Rightarrow>
             (case parseSegment P encodedPayload of
                Inl e \<Rightarrow> (Invalid e, st)
              | Inr payload \<Rightarrow>
             (case js_prop header ''alg'' of
                Inl e \<Rightarrow> (Invalid e, st)
              | Inr alg \<Rightarrow>
             if alg \<noteq> Some (JStr algorithm) then (Invalid InvalidAlgorithm, st)
             else
             (case js_prop payload ''exp'' of
                Inl e \<Rightarrow> (Invalid e, st)
              | Inr exp \<Rightarrow>
             if js_truthy exp \<and> js_lt P exp (now div 1000) then (Invalid TokenExpired, st)
             else
             (case ensureSecretKey P st of
                (Inl e, st') \<Rightarrow> (Invalid e, st')
              | (Inr key, st') \<Rightarrow>
                  (let data = encodedHeader @ ''.'' @ encodedPayload;
                       expectedEncodedSignature = base64URLEncode P (createSignature P data key)
                   in if encodedSignature \<noteq> expectedEncodedSignature
                      then (Invalid InvalidSignature, st')
                      else (Valid payload None, st')))))))
         | parts \<Rightarrow> (Invalid InvalidTokenStructure, st)))"

text \<open>\<open>needsRefresh(payload)\<close>, with \<open>now\<close> the value of \<open>Date.now()\<close>.\<close>

definition needsRefresh :: "runtime \<Rightarrow> int \<Rightarrow> json \<Rightarrow> bool" where
  "needsRefresh P now payload =
     (if \<not> js_truthy (Some payload) then True
      else (case js_prop payload ''exp'' of
              Inl e \<Rightarrow> True
            | Inr exp \<Rightarrow>
                if \<not> js_truthy exp then True
                else (case js_minus P exp (now div 1000) of
                        None \<Rightarrow> False
                      | Some timeUntilExpiry \<Rightarrow> timeUntilExpiry < 120)))"

text \<open>
  \<open>getValidToken\<close> reads the clock up to three times: in \<open>validateToken\<close> (\<open>now_v\<close>), in
  \<open>needsRefresh\<close> (\<open>now_r\<close>) and in \<open>createPayload\<close> (\<open>now_g\<close>).
\<close>

definition getValidToken ::
  "runtime \<Rightarrow> int \<Rightarrow> int \<Rightarrow> int \<Rightarrow> jwt_state \<Rightarrow> (string \<times> json) list
     \<Rightarrow> (jwt_error + string) \<times> jwt_state" where
  "getValidToken P now_v now_r now_g st customClaims =
     (if \<not> storage_available st then (Inl StorageError, st)
      else
        (let (reuse, st1) =
               (if str_truthy (stored_currentJWT st)
                then (case validateToken P now_v st (map_option JStr (stored_currentJWT st)) of
                        (Valid payload note, st') \<Rightarrow> (\<not> needsRefresh P now_r payload, st')
                      | (Invalid e, st') \<Rightarrow> (False, st'))
                else (False, st))
         in if reuse then (Inr (the (stored_currentJWT st)), st1)
            else (case generateToken P now_g st1 customClaims of
                    (Inl e, st2) \<Rightarrow> (Inl e, st2)
                  | (Inr newToken, st2) \<Rightarrow>
                      (Inr newToken, st2\<lparr>stored_currentJWT := Some newToken\<rparr>))))"

section \<open>background.js\<close>

text \<open>
  The answer to a \<open>getJWTToken\<close> message: \<open>{ success: true, token }\<close> or
  \<open>{ success: false, error }\<close>.
\<close>

datatype token_response =
    TokenSuccess string
  | TokenFailure jwt_error

text \<open>
  The handler of \<open>getJWTToken\<close>. The first component of the state says whether the variable
  \<open>jwtUtils\<close> holds an instance; a new instance has no secret key yet. The custom claims of
  the request are \<open>request.customClaims || {}\<close>.
\<close>

definition onGetJWTToken ::
  "runtime \<Rightarrow> int \<Rightarrow> int \<Rightarrow> int \<Rightarrow> bool \<times> jwt_state \<Rightarrow> (string \<times> json) list option
     \<Rightarrow> token_response \<times> (bool \<times> jwt_state)" where
  "onGetJWTToken P now_v now_r now_g background customClaims =
     (case (if fst background then (Inr [], snd background)
            else initializeSecretKey P ((snd background)\<lparr>secretKey := None\<rparr>)) of
        (Inl e, st) \<Rightarrow> (TokenFailure e, (True, st))
      | (Inr key, st) \<Rightarrow>
          (case getValidToken P now_v now_r now_g st
                  (case customClaims of None \<Rightarrow> [] | Some claims \<Rightarrow> claims) of
             (Inl e, st') \<Rightarrow> (TokenFailure e, (True, st'))
           | (Inr token, st') \<Rightarrow> (TokenSuccess token, (True, st'))))"

section \<open>page-jwt-utils.js\<close>

text \<open>
  \<open>validateBasicToken\<close> of the page context: the same checks without the signature. Its
  result carries the note 'Signature not verified in page context'.
\<close>

definition signature_note :: string where
  "signature_note = ''Signature not verified in page context''"

definition validateBasicToken :: "runtime \<Rightarrow> int \<Rightarrow> json option \<Rightarrow> validation" where
  "validateBasicToken P now token =
     (if \<not> js_truthy token \<or> \<not> js_is_string token then Invalid InvalidTokenFormat
      else
        (case split_on CHR ''.'' (js_string_of token) of
           [encodedHeader, encodedPayload, encodedSignature] \<Rightarrow>
             (case parseSegment P encodedHeader of
                Inl e \<Rightarrow> Invalid e
              | Inr header \<Rightarrow>
             (case parseSegment P encodedPayload of
                Inl e \<Rightarrow> Invalid e
              | Inr payload \<Rightarrow>
             (case js_prop header ''alg'' of
                Inl e \<Rightarrow> Invalid e
              | Inr alg \<Rightarrow>
             if alg \<noteq> Some (JStr algorithm) then Invalid InvalidAlgorithm
             else
             (case js_prop payload ''exp'' of
                Inl e \<Rightarrow> Invalid e
              | Inr exp \<Rightarrow>
             if js_truthy exp \<and> js_lt P exp (now div 1000) then Invalid TokenExpired
             else Valid payload (Some signature_note)))))
         | parts \<Rightarrow> Invalid InvalidTokenStructure))"

text \<open>
  \<open>extractPayload\<close>: the payload of a token without any check, or \<open>null\<close> when
  the token has no payload that parses.
\<close>

definition extractPayload :: "runtime \<Rightarrow> json option \<Rightarrow> json" where
  "extractPayload P token =
     (if \<not> js_truthy token \<or> \<not> js_is_string token then JNull
      else
        (case split_on CHR ''.'' (js_string_of token) of
           [encodedHeader, encodedPayload, encodedSignature] \<Rightarrow>
             (case parseSegment P encodedPayload of
                Inl e \<Rightarrow> JNull
              | Inr payload \<Rightarrow> payload)
         | parts \<Rightarrow> JNull))"

section \<open>inject.js\<close>

text \<open>
  The page's objects are capabilities of the model. A message record of \<open>Store.Msg\<close> has
  the fields the code reads; \<open>Store.Msg.get\<close> returns a record or nothing; a download
  function returns the bytes or fails with the \<open>message\<close> of what it threw (\<open>None\<close> when that
  value has no \<open>message\<close>).
\<close>

record message =
  msg_type :: string
  directPath :: "string option"
  encFilehash :: "string option"
  filehash :: "string option"
  mediaKey :: "string option"
  mediaKeyTimestamp :: "int option"
  mimetype :: "string option"

datatype msg_key =
    KeyString string
  | KeyObject string bool string

record media_ref =
  ref_directPath :: "string option"
  ref_encFilehash :: "string option"
  ref_filehash :: "string option"
  ref_mediaKey :: "string option"
  ref_mediaKeyTimestamp :: "int option"
  ref_type :: string

type_synonym download_fn = "media_ref \<Rightarrow> string option + string"

record download_manager =
  downloadAndDecrypt :: "download_fn option"
  downloadAndMaybeDecrypt :: "download_fn option"

text \<open>\<open>WidFactory.createWid\<close> gives \<open>None\<close> when it throws.\<close>

record store =
  Msg :: "(msg_key \<Rightarrow> message option) option"
  DownloadManager :: "download_manager option"
  WidFactory :: "(string \<Rightarrow> string option) option"

text \<open>What a \<open>FileReader\<close> does with \<open>readAsDataURL\<close>: \<open>onload\<close> with its \<open>result\<close>, or \<open>onerror\<close>.\<close>

datatype read_result =
    ReadLoaded "string option"
  | ReadFailed

text \<open>
  The page as inject.js sees it: its variables \<open>pageJWTUtils\<close> (set or not) and
  \<open>storeInitialized\<close>, whether \<open>window.PageJWTUtils\<close> is a function (page-jwt-utils.js
  was loaded), \<open>window.ExposeStore\<close> (absent, or a function that throws, or one that sets
  \<open>window.Store\<close>), \<open>window.Store\<close>, \<open>window.WWebJS.getMessageModel\<close>, the
  \<open>type\<close> a \<open>Blob\<close> gets from the one requested, and the \<open>FileReader\<close> on the blob's
  bytes and type.
\<close>

record window =
  pageJWTUtils :: bool
  storeInitialized :: bool
  window_PageJWTUtils :: bool
  ExposeStore :: "store option option option"
  Store :: "store option"
  WWebJS_getMessageModel :: "(message \<Rightarrow> message) option"
  Blob_type :: "string \<Rightarrow> string"
  readAsDataURL :: "string \<Rightarrow> string \<Rightarrow> read_result"

text \<open>
  \<open>initializeStoreWithJWT\<close>, run once shortly after the script is loaded: it creates the
  validator when its class is there, and exposes the store when \<open>ExposeStore\<close> is there.
\<close>

definition initializeStoreWithJWT :: "window \<Rightarrow> window" where
  "initializeStoreWithJWT W =
     (let W1 = (if \<not> pageJWTUtils W \<and> window_PageJWTUtils W then W\<lparr>pageJWTUtils := True\<rparr>
                else W)
      in case ExposeStore W1 of
           None \<Rightarrow> W1
         | Some expose \<Rightarrow>
             if \<not> storeInitialized W1
             then (case expose of
                     None \<Rightarrow> W1
                   | Some exposed \<Rightarrow> W1\<lparr>Store := exposed, storeInitialized := True\<rparr>)
             else W1)"

text \<open>
  The reasons \<open>getWhatsAppAudioData\<close> rejects with; each is a string in the source:
  'JWT token validation failed: ' + validation.error, 'WhatsApp internal Store objects not
  found. ...', 'Message not found in WhatsApp store with ID: ' + messageId, 'Failed to
  convert blob to base64.', 'Error downloading or decrypting audio: ' + downloadError.message,
  'Required media properties or download function not found for audio message. Message ID: '
  + messageId, 'Message is not an audio message. Message ID: ' + messageId.
\<close>

datatype reject_reason =
    JWTValidationFailed jwt_error
  | StoreNotFound
  | MessageNotFound string
  | BlobConversionFailed
  | DownloadError "string option"
  | MediaPropertiesMissing string
  | NotAudioMessage string

text \<open>
  A value a promise is rejected with: a string primitive (\<open>reject("...")\<close>), an \<open>Error\<close>
  object with its message, or the event \<open>reader.onerror\<close> passes to \<open>reject\<close>.
\<close>

datatype thrown =
    ThrownString reject_reason
  | ThrownError string
  | ThrownProgressEvent

text \<open>\<open>error.message\<close>: only an \<open>Error\<close> object has one.\<close>

fun js_message :: "thrown \<Rightarrow> string option" where
  "js_message (ThrownError m) = Some m"
| "js_message (ThrownString r) = None"
| "js_message ThrownProgressEvent = None"

datatype 'a settled =
    Resolved 'a
  | Rejected thrown

text \<open>The calls into the page that a request makes, in order.\<close>

datatype call =
    CallValidateBasicToken
  | CallMsgGet msg_key
  | CallCreateWid string
  | CallDownload media_ref
  | CallReadAsDataURL

text \<open>Lines 83 to 112 of inject.js: the key to look the message up with.\<close>

definition resolveMsgKey ::
  "(msg_key \<Rightarrow> message option) \<Rightarrow> (string \<Rightarrow> string option) option \<Rightarrow> string
     \<Rightarrow> msg_key \<times> call list" where
  "resolveMsgKey get widFactory messageId =
     (case get (KeyString messageId) of
        Some directMsg \<Rightarrow> (KeyString messageId, [CallMsgGet (KeyString messageId)])
      | None \<Rightarrow>
          (let parts = split_on CHR ''_'' messageId
           in case widFactory of
                Some createWid \<Rightarrow>
                  if length parts \<ge> 3
                  then (case createWid (parts ! 1) of
                          Some remoteWid \<Rightarrow>
                            (KeyObject (parts ! 2) (parts ! 0 = ''true'') remoteWid,
                             [CallMsgGet (KeyString messageId), CallCreateWid (parts ! 1)])
                        | None \<Rightarrow>
                            (KeyString messageId,
                             [CallMsgGet (KeyString messageId), CallCreateWid (parts ! 1)]))
                  else (KeyString messageId, [CallMsgGet (KeyString messageId)])
              | None \<Rightarrow> (KeyString messageId, [CallMsgGet (KeyString messageId)])))"

definition isAudio :: "message \<Rightarrow> bool" where
  "isAudio msg = (msg_type msg = ''ptt'' \<or> msg_type msg = ''audio'')"

text \<open>\<open>reader.result.split(',')[1]\<close>\<close>

definition after_comma :: "string \<Rightarrow> string option" where
  "after_comma s = (case split_on CHR '','' s of a # b # rest \<Rightarrow> Some b | parts \<Rightarrow> None)"

text \<open>Lines 123 to 165: the download of an audio message and its conversion.\<close>

definition downloadAudio ::
  "window \<Rightarrow> download_manager \<Rightarrow> string \<Rightarrow> message
     \<Rightarrow> (string option \<times> string) settled \<times> call list" where
  "downloadAudio W dm messageId storeMsg =
     (if isAudio storeMsg then
        (let msg = (case WWebJS_getMessageModel W of Some f \<Rightarrow> f storeMsg | None \<Rightarrow> storeMsg);
             dlFn = (case downloadAndDecrypt dm of Some f \<Rightarrow> Some f
                     | None \<Rightarrow> downloadAndMaybeDecrypt dm)
         in case dlFn of
              None \<Rightarrow> (Rejected (ThrownString (MediaPropertiesMissing messageId)), [])
            | Some f \<Rightarrow>
                if str_truthy (directPath msg) \<and> str_truthy (encFilehash msg)
                   \<and> str_truthy (filehash msg) \<and> str_truthy (mediaKey msg)
                then
                  (let mref = \<lparr>ref_directPath = directPath msg, ref_encFilehash = encFilehash msg,
                               ref_filehash = filehash msg, ref_mediaKey = mediaKey msg,
                               ref_mediaKeyTimestamp = mediaKeyTimestamp msg,
                               ref_type = msg_type msg\<rparr>
                   in case f mref of
                        Inl downloadError \<Rightarrow>
                          (Rejected (ThrownString (DownloadError downloadError)), [CallDownload mref])
                      | Inr blobData \<Rightarrow>
                          (let blob_type = Blob_type W
                                 (if str_truthy (mimetype msg) then the (mimetype msg)
                                  else ''application/octet-stream'')
                           in case readAsDataURL W blobData blob_type of
                                ReadFailed \<Rightarrow>
                                  (Rejected ThrownProgressEvent, [CallDownload mref, CallReadAsDataURL])
                              | ReadLoaded result \<Rightarrow>
                                  if \<not> str_truthy result
                                  then (Rejected (ThrownString BlobConversionFailed),
                                        [CallDownload mref, CallReadAsDataURL])
                                  else (Resolved (after_comma (the result), blob_type),
                                        [CallDownload mref, CallReadAsDataURL])))
                else (Rejected (ThrownString (MediaPropertiesMissing messageId)), []))
      else (Rejected (ThrownString (NotAudioMessage messageId)), []))"

text \<open>
  Lines 77 to 165: everything after the token check. The lookups \<open>Store.Msg.get\<close> and
  \<open>WWebJS.getMessageModel\<close> and the reads of the message's fields are taken to return; a
  lookup of the page that throws is outside this model.
\<close>

definition accessStore ::
  "window \<Rightarrow> string \<Rightarrow> (string option \<times> string) settled \<times> call list" where
  "accessStore W messageId =
     (case Store W of
        None \<Rightarrow> (Rejected (ThrownString StoreNotFound), [])
      | Some S \<Rightarrow>
     (case Msg S of
        None \<Rightarrow> (Rejected (ThrownString StoreNotFound), [])
      | Some get \<Rightarrow>
     (case DownloadManager S of
        None \<Rightarrow> (Rejected (ThrownString StoreNotFound), [])
      | Some dm \<Rightarrow>
          (let (msgKey, calls) = resolveMsgKey get (WidFactory S) messageId
           in case get msgKey of
                None \<Rightarrow>
                  (Rejected (ThrownString (MessageNotFound messageId)), calls @ [CallMsgGet msgKey])
              | Some storeMsg \<Rightarrow>
                  (let (r, calls') = downloadAudio W dm messageId storeMsg
                   in (r, calls @ [CallMsgGet msgKey] @ calls'))))))"

text \<open>
  \<open>getWhatsAppAudioData(messageId, jwtToken)\<close>: how its promise settles, and the calls made.
  \<open>validateBasicToken\<close> does not throw, so the \<open>catch\<close> around it is never entered.
\<close>

definition getWhatsAppAudioData ::
  "runtime \<Rightarrow> int \<Rightarrow> window \<Rightarrow> string \<Rightarrow> json option
     \<Rightarrow> (string option \<times> string) settled \<times> call list" where
  "getWhatsAppAudioData P now W messageId jwtToken =
     (if js_truthy jwtToken \<and> pageJWTUtils W then
        (case validateBasicToken P now jwtToken of
           Invalid e \<Rightarrow>
             (Rejected (ThrownString (JWTValidationFailed e)), [CallValidateBasicToken])
         | Valid payload note \<Rightarrow>
             (let (r, calls) = accessStore W messageId in (r, CallValidateBasicToken # calls)))
      else accessStore W messageId)"

text \<open>
  The event \<open>whatsappGeminiTranscriber_audioDataResponse\<close>: its \<open>detail\<close> is
  \<open>{ messageId, base64Audio, mimeType }\<close> or \<open>{ messageId, error }\<close>.
\<close>

datatype response =
    AudioDataResponse string "string option" string
  | ErrorResponse string "string option"

text \<open>
  The listener for \<open>whatsappGeminiTranscriber_getAudioData\<close>: the events it dispatches. The
  \<open>detail\<close> of the request is destructured before the \<open>try\<close>; without a detail the
  listener throws and dispatches nothing.
\<close>

definition onGetAudioData ::
  "runtime \<Rightarrow> int \<Rightarrow> window \<Rightarrow> (string \<times> json option) option \<Rightarrow> response list" where
  "onGetAudioData P now W detail =
     (case detail of
        None \<Rightarrow> []
      | Some (messageId, jwtToken) \<Rightarrow>
          (case fst (getWhatsAppAudioData P now W messageId jwtToken) of
             Resolved (base64Audio, mimeType) \<Rightarrow> [AudioDataResponse messageId base64Audio mimeType]
           | Rejected error \<Rightarrow> [ErrorResponse messageId (js_message error)]))"

section \<open>A reference runtime\<close>

text \<open>
  The theorems below hold for every runtime. To evaluate the code on concrete tokens, this
  section gives one: Base64 and JSON as the standards define them on the values of the model
  (\<open>JSON.parse\<close> here rejects a number with a fraction or an exponent and a \<open>\u\<close> escape
  above 00ff, which the model's values cannot hold), and a keyed checksum in the place of
  HMAC-SHA256.
\<close>

definition b64_alphabet :: string where
  "b64_alphabet = ''ABCDEFGHIJKLMNOPQRSTUVWXYZabcdefghijklmnopqrstuvwxyz0123456789+/''"

definition b64_char :: "int \<Rightarrow> char" where
  "b64_char n = b64_alphabet ! nat (n mod 64)"

fun index_of :: "char \<Rightarrow> string \<Rightarrow> nat option" where
  "index_of c [] = None"
| "index_of c (x # xs) = (if x = c then Some 0 else map_option Suc (index_of c xs))"

definition b64_index :: "char \<Rightarrow> int option" where
  "b64_index c = map_option int (index_of c b64_alphabet)"

fun ref_btoa :: "string \<Rightarrow> string" where
  "ref_btoa [] = []"
| "ref_btoa [a] =
     (let x = (of_char a :: int)
      in [b64_char (x div 4), b64_char (x mod 4 * 16), CHR ''='', CHR ''=''])"
| "ref_btoa [a, b] =
     (let x = (of_char a :: int); y = (of_char b :: int)
      in [b64_char (x div 4), b64_char (x mod 4 * 16 + y div 16), b64_char (y mod 16 * 4),
          CHR ''=''])"
| "ref_btoa (a # b # c # rest) =
     (let x = (of_char a :: int); y = (of_char b :: int); z = (of_char c :: int)
      in b64_char (x div 4) # b64_char (x mod 4 * 16 + y div 16)
         # b64_char (y mod 16 * 4 + z div 64) # b64_char (z mod 64) # ref_btoa rest)"

text \<open>The sextets of a string, or \<open>None\<close> when a character is outside the alphabet.\<close>

fun sextets :: "string \<Rightarrow> int list option" where
  "sextets [] = Some []"
| "sextets (c # cs) =
     (case b64_index c of
        None \<Rightarrow> None
      | Some n \<Rightarrow> (case sextets cs of None \<Rightarrow> None | Some ns \<Rightarrow> Some (n # ns)))"

fun bytes_of_sextets :: "int list \<Rightarrow> string" where
  "bytes_of_sextets (p # q # r # s # rest) =
     char_of (p * 4 + q div 16) # char_of (q mod 16 * 16 + r div 4) # char_of (r mod 4 * 64 + s)
     # bytes_of_sextets rest"
| "bytes_of_sextets [p, q, r] = [char_of (p * 4 + q div 16), char_of (q mod 16 * 16 + r div 4)]"
| "bytes_of_sextets [p, q] = [char_of (p * 4 + q div 16)]"
| "bytes_of_sextets ns = []"

definition is_ascii_whitespace :: "char \<Rightarrow> bool" where
  "is_ascii_whitespace c = (c \<in> set [CHR '' '', CHR 0x09, CHR 0x0A, CHR 0x0C, CHR 0x0D])"

definition strip_padding :: "string \<Rightarrow> string" where
  "strip_padding s =
     (if length s mod 4 = 0 \<and> s \<noteq> [] \<and> last s = CHR ''=''
      then (if butlast s \<noteq> [] \<and> last (butlast s) = CHR ''='' then butlast (butlast s)
            else butlast s)
      else s)"

text \<open>The forgiving Base64 decoding of \<open>atob\<close>.\<close>

definition ref_atob :: "string \<Rightarrow> string option" where
  "ref_atob s =
     (let t = strip_padding (filter (\<lambda>c. \<not> is_ascii_whitespace c) s)
      in if length t mod 4 = 1 then None
         else (case sextets t of None \<Rightarrow> None | Some ns \<Rightarrow> Some (bytes_of_sextets ns)))"

definition digit_char :: "int \<Rightarrow> char" where
  "digit_char n = ''0123456789'' ! nat (n mod 10)"

text \<open>The decimal digits of a number that is not negative.\<close>

function nat_digits :: "int \<Rightarrow> string" where
  "nat_digits n = (if n < 10 then [digit_char n] else nat_digits (n div 10) @ [digit_char n])"
  by pat_completeness auto
termination
  by (relation "measure nat") auto

definition int_digits :: "int \<Rightarrow> string" where
  "int_digits i = (if i < 0 then CHR ''-'' # nat_digits (- i) else nat_digits i)"

text \<open>\<open>JSON.stringify\<close> of a string: the quoted form.\<close>

definition escape_char :: "char \<Rightarrow> string" where
  "escape_char c =
     (if c = CHR 0x22 then [CHR 0x5C, CHR 0x22]
      else if c = CHR 0x5C then [CHR 0x5C, CHR 0x5C]
      else if c = CHR 0x08 then [CHR 0x5C, CHR ''b'']
      else if c = CHR 0x09 then [CHR 0x5C, CHR ''t'']
      else if c = CHR 0x0A then [CHR 0x5C, CHR ''n'']
      else if c = CHR 0x0C then [CHR 0x5C, CHR ''f'']
      else if c = CHR 0x0D then [CHR 0x5C, CHR ''r'']
      else if (of_char c :: int) < 32
      then [CHR 0x5C, CHR ''u'', CHR ''0'', CHR ''0'', hex_digit (of_char c div 16),
            hex_digit (of_char c)]
      else [c])"

definition quote_string :: "string \<Rightarrow> string" where
  "quote_string s = CHR 0x22 # concat (map escape_char s) @ [CHR 0x22]"

fun join_comma :: "string list \<Rightarrow> string" where
  "join_comma [] = []"
| "join_comma [x] = x"
| "join_comma (x # y # ys) = x @ CHR '','' # join_comma (y # ys)"

fun ref_stringify :: "json \<Rightarrow> string" where
  "ref_stringify JNull = ''null''"
| "ref_stringify (JBool b) = (if b then ''true'' else ''false'')"
| "ref_stringify (JNum n) = int_digits n"
| "ref_stringify (JStr s) = quote_string s"
| "ref_stringify (JArr vs) = CHR ''['' # join_comma (map ref_stringify vs) @ '']''"
| "ref_stringify (JObj ps) =
     CHR ''{'' # join_comma (map (\<lambda>(k, v). quote_string k @ CHR '':'' # ref_stringify v) ps) @ ''}''"

definition is_json_ws :: "char \<Rightarrow> bool" where
  "is_json_ws c = (c \<in> set [CHR '' '', CHR 0x09, CHR 0x0A, CHR 0x0D])"

definition skip_ws :: "string \<Rightarrow> string" where
  "skip_ws s = dropWhile is_json_ws s"

definition is_digit :: "char \<Rightarrow> bool" where
  "is_digit c = (c \<in> set ''0123456789'')"

definition digit_val :: "char \<Rightarrow> int" where
  "digit_val c = int (the (index_of c ''0123456789''))"

definition digits_value :: "string \<Rightarrow> int" where
  "digits_value ds = foldl (\<lambda>a c. a * 10 + digit_val c) 0 ds"

definition hex_val :: "char \<Rightarrow> int option" where
  "hex_val c =
     (case index_of c ''0123456789abcdef'' of
        Some n \<Rightarrow> Some (int n)
      | None \<Rightarrow> map_option int (index_of c ''0123456789ABCDEF''))"

text \<open>A JSON number: an optional minus sign and an integer part without a leading zero.\<close>

definition parse_number :: "string \<Rightarrow> (json \<times> string) option" where
  "parse_number s =
     (let neg = (s \<noteq> [] \<and> hd s = CHR ''-'');
          s1 = (if neg then tl s else s);
          ds = takeWhile is_digit s1;
          rest = dropWhile is_digit s1
      in if ds = [] then None
         else if length ds > 1 \<and> hd ds = CHR ''0'' then None
         else if rest \<noteq> [] \<and> hd rest \<in> set ''.eE'' then None
         else Some (JNum (if neg then - digits_value ds else digits_value ds), rest))"

definition unescape :: "char \<Rightarrow> char option" where
  "unescape e =
     (if e = CHR 0x22 then Some (CHR 0x22)
      else if e = CHR 0x5C then Some (CHR 0x5C)
      else if e = CHR ''/'' then Some (CHR ''/'')
      else if e = CHR ''b'' then Some (CHR 0x08)
      else if e = CHR ''f'' then Some (CHR 0x0C)
      else if e = CHR ''n'' then Some (CHR 0x0A)
      else if e = CHR ''r'' then Some (CHR 0x0D)
      else if e = CHR ''t'' then Some (CHR 0x09)
      else None)"

definition hex4 :: "char \<Rightarrow> char \<Rightarrow> char \<Rightarrow> char \<Rightarrow> int option" where
  "hex4 a b c d =
     (case (hex_val a, hex_val b, hex_val c, hex_val d) of
        (Some x, Some y, Some z, Some w) \<Rightarrow> Some (((x * 16 + y) * 16 + z) * 16 + w)
      | other \<Rightarrow> None)"

text \<open>The characters of a JSON string after the opening quote, up to the closing one.\<close>

fun parse_chars :: "string \<Rightarrow> (string \<times> string) option" where
  "parse_chars [] = None"
| "parse_chars (c # cs) =
     (if c = CHR 0x22 then Some ([], cs)
      else if c = CHR 0x5C then
        (case cs of
           [] \<Rightarrow> None
         | e # r \<Rightarrow>
             if e = CHR ''u'' then
               (case r of
                  h1 # h2 # h3 # h4 # r' \<Rightarrow>
                    (case hex4 h1 h2 h3 h4 of
                       None \<Rightarrow> None
                     | Some n \<Rightarrow>
                         if n < 256
                         then (case parse_chars r' of
                                 None \<Rightarrow> None
                               | Some (str, rest) \<Rightarrow> Some (char_of n # str, rest))
                         else None)
                | other \<Rightarrow> None)
             else
               (case unescape e of
                  None \<Rightarrow> None
                | Some ch \<Rightarrow>
                    (case parse_chars r of
                       None \<Rightarrow> None
                     | Some (str, rest) \<Rightarrow> Some (ch # str, rest))))
      else if (of_char c :: int) < 32 then None
      else (case parse_chars cs of
              None \<Rightarrow> None
            | Some (str, rest) \<Rightarrow> Some (c # str, rest)))"

text \<open>
  The recursive-descent parser. The first argument bounds the number of nested calls; twice
  the length of the text is enough.
\<close>

fun parse_value :: "nat \<Rightarrow> string \<Rightarrow> (json \<times> string) option"
  and parse_elements :: "nat \<Rightarrow> string \<Rightarrow> (json list \<times> string) option"
  and parse_members :: "nat \<Rightarrow> string \<Rightarrow> ((string \<times> json) list \<times> string) option" where
  "parse_value 0 s = None"
| "parse_value (Suc n) s =
     (case skip_ws s of
        [] \<Rightarrow> None
      | c # r \<Rightarrow>
          if c = CHR ''{'' then
            (if skip_ws r \<noteq> [] \<and> hd (skip_ws r) = CHR ''}'' then Some (JObj [], tl (skip_ws r))
             else (case parse_members n r of
                     None \<Rightarrow> None
                   | Some (ps, r') \<Rightarrow> Some (JObj (obj_spread [] ps), r')))
          else if c = CHR ''['' then
            (if skip_ws r \<noteq> [] \<and> hd (skip_ws r) = CHR '']'' then Some (JArr [], tl (skip_ws r))
             else (case parse_elements n r of
                     None \<Rightarrow> None
                   | Some (vs, r') \<Rightarrow> Some (JArr vs, r')))
          else if c = CHR 0x22 then
            (case parse_chars r of
               None \<Rightarrow> None
             | Some (str, r') \<Rightarrow> Some (JStr str, r'))
          else if c = CHR ''t'' then
            (if take 3 r = ''rue'' then Some (JBool True, drop 3 r) else None)
          else if c = CHR ''f'' then
            (if take 4 r = ''alse'' then Some (JBool False, drop 4 r) else None)
          else if c = CHR ''n'' then
            (if take 3 r = ''ull'' then Some (JNull, drop 3 r) else None)
          else parse_number (c # r))"
| "parse_elements 0 s = None"
| "parse_elements (Suc n) s =
     (case parse_value n s of
        None \<Rightarrow> None
      | Some (v, r) \<Rightarrow>
          (case skip_ws r of
             [] \<Rightarrow> None
           | c # r' \<Rightarrow>
               if c = CHR '','' then
                 (case parse_elements n r' of
                    None \<Rightarrow> None
                  | Some (vs, r'') \<Rightarrow> Some (v # vs, r''))
               else if c = CHR '']'' then Some ([v], r')
               else None))"
| "parse_members 0 s = None"
| "parse_members (Suc n) s =
     (case skip_ws s of
        [] \<Rightarrow> None
      | q # r \<Rightarrow>
          if q \<noteq> CHR 0x22 then None
          else
            (case parse_chars r of
               None \<Rightarrow> None
             | Some (k, r1) \<Rightarrow>
                 (case skip_ws r1 of
                    [] \<Rightarrow> None
                  | colon # r2 \<Rightarrow>
                      if colon \<noteq> CHR '':'' then None
                      else
                        (case parse_value n r2 of
                           None \<Rightarrow> None
                         | Some (v, r3) \<Rightarrow>
                             (case skip_ws r3 of
                                [] \<Rightarrow> None
                              | c # r4 \<Rightarrow>
                                  if c = CHR '','' then
                                    (case parse_members n r4 of
                                       None \<Rightarrow> None
                                     | Some (ps, r5) \<Rightarrow> Some ((k, v) # ps, r5))
                                  else if c = CHR ''}'' then Some ([(k, v)], r4)
                                  else None)))))"

definition ref_parse :: "string \<Rightarrow> json option" where
  "ref_parse s =
     (case parse_value (2 * length s + 2) s of
        None \<Rightarrow> None
      | Some (v, rest) \<Rightarrow> if skip_ws rest = [] then Some v else None)"

text \<open>The string an array element contributes to \<open>Array.prototype.join\<close>.\<close>

fun elem_string :: "json \<Rightarrow> string" where
  "elem_string JNull = []"
| "elem_string (JBool b) = (if b then ''true'' else ''false'')"
| "elem_string (JNum n) = int_digits n"
| "elem_string (JStr s) = s"
| "elem_string (JArr vs) = join_comma (map elem_string vs)"
| "elem_string (JObj ps) = ''[object Object]''"

text \<open>
  The numeric value of a string: the empty string is 0, a signed decimal integer is its value,
  every other string is NaN.
\<close>

definition string_to_number :: "string \<Rightarrow> int option" where
  "string_to_number s =
     (let t = rev (dropWhile is_ascii_whitespace (rev (dropWhile is_ascii_whitespace s)));
          signed = (t \<noteq> [] \<and> hd t \<in> set ''+-'');
          ds = (if signed then tl t else t)
      in if t = [] then Some 0
         else if ds \<noteq> [] \<and> (\<forall>c \<in> set ds. is_digit c)
         then Some (if hd t = CHR ''-'' then - digits_value ds else digits_value ds)
         else None)"

fun ref_ToNumber :: "json \<Rightarrow> int option" where
  "ref_ToNumber (JStr s) = string_to_number s"
| "ref_ToNumber (JArr vs) = string_to_number (join_comma (map elem_string vs))"
| "ref_ToNumber (JObj ps) = None"
| "ref_ToNumber JNull = Some 0"
| "ref_ToNumber (JBool b) = Some (if b then 1 else 0)"
| "ref_ToNumber (JNum n) = Some n"

text \<open>The keyed checksum that stands for HMAC-SHA256: two bytes.\<close>

definition ref_hmac :: "string \<Rightarrow> string \<Rightarrow> string" where
  "ref_hmac key data =
     (let h = foldl (\<lambda>a c. (a * 33 + of_char c) mod 65536) (5381 :: int) (key @ CHR 0x00 # data)
      in [char_of (h div 256), char_of h])"

definition ref_runtime :: runtime where
  "ref_runtime =
     \<lparr>JSON_stringify = ref_stringify, JSON_parse = ref_parse, btoa = ref_btoa, atob = ref_atob,
      hmac_sha256 = ref_hmac, getRandomValues = map (\<lambda>i. (i * 37 + 11) mod 256) [0..31],
      ToNumber = ref_ToNumber\<rparr>"

section \<open>What the token code needs from the runtime\<close>

text \<open>
  Two facts about the built-ins that the round trip of a token rests on: Base64 text contains
  no dot, and a JSON value that is stringified and encoded into a segment, then decoded and
  parsed, is the value it was.
\<close>

definition base64_dot_free :: "runtime \<Rightarrow> bool" where
  "base64_dot_free P = (\<forall>s. CHR ''.'' \<notin> set (btoa P s))"

definition segment_ok :: "runtime \<Rightarrow> json \<Rightarrow> bool" where
  "segment_ok P v = (parseSegment P (base64URLEncode P (JSON_stringify P v)) = Inr v)"

section \<open>The state of the cache\<close>


section \<open>Example data\<close>

text \<open>A service worker whose secret is set, with working storage and no cached token.\<close>

definition example_state :: jwt_state where
  "example_state =
     \<lparr>secretKey = Some ''s3cr3t'', stored_jwtSecretKey = Some ''s3cr3t'',
      stored_currentJWT = None, storage_available = True\<rparr>"

text \<open>
  The token that this service worker mints at \<open>Date.now() = 1000000\<close> for the message MSG1,
  and the service worker with this token in its cache.
\<close>

definition example_claims :: "(string \<times> json) list" where
  "example_claims = [(''messageId'', JStr ''MSG1'')]"

definition example_token :: string where
  "example_token =
     ''eyJhbGciOiJIUzI1NiIsInR5cCI6IkpXVCJ9.eyJpc3MiOiJ3aGF0c3VwZ2VtaW5pLWV4dGVuc2lvbiIsInN1YiI6InN0b3JlLWFjY2VzcyIsImF1ZCI6IndoYXRzYXBwLXdlYiIsImV4cCI6MTkwMCwiaWF0IjoxMDAwLCJzY29wZSI6WyJzdG9yZS1yZWFkIiwiYXVkaW8tZXh0cmFjdCJdLCJtZXNzYWdlSWQiOiJNU0cxIn0.cek''"

definition example_cached_state :: jwt_state where
  "example_cached_state = example_state\<lparr>stored_currentJWT := Some example_token\<rparr>"

text \<open>The token minted at the same time for the custom claims \<open>{exp: 1}\<close>.\<close>

definition example_token_exp_1 :: string where
  "example_token_exp_1 =
     ''eyJhbGciOiJIUzI1NiIsInR5cCI6IkpXVCJ9.eyJpc3MiOiJ3aGF0c3VwZ2VtaW5pLWV4dGVuc2lvbiIsInN1YiI6InN0b3JlLWFjY2VzcyIsImF1ZCI6IndoYXRzYXBwLXdlYiIsImV4cCI6MSwiaWF0IjoxMDAwLCJzY29wZSI6WyJzdG9yZS1yZWFkIiwiYXVkaW8tZXh0cmFjdCJdfQ.dqs''"

text \<open>A voice message of the page's store with its media reference.\<close>

definition example_message :: message where
  "example_message =
     \<lparr>msg_type = ''ptt'', directPath = Some ''/v/t62'', encFilehash = Some ''ZW5j'',
      filehash = Some ''cGxhaW4'', mediaKey = Some ''a2V5'', mediaKeyTimestamp = Some 1000,
      mimetype = Some ''audio/ogg''\<rparr>"

text \<open>A store that holds this message under the id MSG1 and downloads the bytes ABC.\<close>

definition example_store :: store where
  "example_store =
     \<lparr>Msg = Some (\<lambda>k. if k = KeyString ''MSG1'' then Some example_message else None),
      DownloadManager =
        Some \<lparr>downloadAndDecrypt = Some (\<lambda>r. Inr ''ABC''), downloadAndMaybeDecrypt = None\<rparr>,
      WidFactory = None\<rparr>"

text \<open>A page, with or without the validator and the store; its \<open>FileReader\<close> works.\<close>

definition example_window :: "bool \<Rightarrow> store option \<Rightarrow> window" where
  "example_window validator st =
     \<lparr>pageJWTUtils = validator, storeInitialized = True, window_PageJWTUtils = validator,
      ExposeStore = None, Store = st, WWebJS_getMessageModel = None,
      Blob_type = (\<lambda>t. t),
      readAsDataURL =
        (\<lambda>bytes t. ReadLoaded (Some (''data:'' @ t @ '';base64,'' @ ref_btoa bytes)))\<rparr>"

section \<open>The failure classes of the specification\<close>



section \<open>Objects and strings\<close>

lemma map_of_obj_set: "map_of (obj_set k v ps) = (map_of ps)(k \<mapsto> v)"
  by (induction ps) (auto simp: fun_eq_iff)

lemma map_of_obj_spread:
  "map_of (obj_spread base extra) k =
     (case map_of (rev extra) k of Some v \<Rightarrow> Some v | None \<Rightarrow> map_of base k)"
proof (induction extra arbitrary: base)
  case Nil
  then show ?case by simp
next
  case (Cons p extra)
  obtain k' v' where p: "p = (k', v')" by (cases p)
  show ?case
    by (simp add: p Cons.IH map_of_obj_set map_add_def split: option.splits)
qed

lemma split_on_not_Nil: "split_on c s \<noteq> []"
  by (induction s) (auto split: list.splits)

lemma split_on_no_sep: "c \<notin> set a \<Longrightarrow> split_on c a = [a]"
  by (induction a) auto

lemma split_on_append: "c \<notin> set a \<Longrightarrow> split_on c (a @ c # rest) = a # split_on c rest"
  by (induction a) auto

lemma split_on_three:
  "c \<notin> set a \<Longrightarrow> c \<notin> set b \<Longrightarrow> c \<notin> set d \<Longrightarrow> split_on c (a @ c # b @ c # d) = [a, b, d]"
  by (simp add: split_on_append split_on_no_sep)

lemma split_on_Cons_D:
  "split_on c s = p # ps \<Longrightarrow>
     c \<notin> set p \<and> (if ps = [] then s = p else \<exists>rest. s = p @ c # rest \<and> split_on c rest = ps)"
proof (induction s arbitrary: p ps)
  case Nil
  then show ?case by simp
next
  case (Cons x xs)
  show ?case
  proof (cases "x = c")
    case True
    with Cons.prems split_on_not_Nil[of c xs] show ?thesis by auto
  next
    case False
    then obtain q qs where q: "split_on c xs = q # qs"
      using split_on_not_Nil[of c xs] by (cases "split_on c xs") auto
    with False Cons.prems have p: "p = x # q" "ps = qs" by auto
    from Cons.IH[OF q] False p show ?thesis by (auto split: if_splits)
  qed
qed

lemma split_on_three_D:
  assumes "split_on c s = [a, b, d]"
  shows "s = a @ c # b @ c # d \<and> c \<notin> set a \<and> c \<notin> set b \<and> c \<notin> set d"
proof -
  from split_on_Cons_D[OF assms] obtain r1
    where 1: "c \<notin> set a" "s = a @ c # r1" "split_on c r1 = [b, d]"
    by auto
  from split_on_Cons_D[OF 1(3)] obtain r2
    where 2: "c \<notin> set b" "r1 = b @ c # r2" "split_on c r2 = [d]"
    by auto
  from split_on_Cons_D[OF 2(3)] have 3: "c \<notin> set d" "r2 = d" by auto
  from 1 2 3 show ?thesis by simp
qed

lemma token_string:
  "js_truthy token \<Longrightarrow> js_is_string token \<Longrightarrow> \<exists>s. token = Some (JStr s) \<and> s \<noteq> []"
  by (cases token rule: js_is_string.cases) auto

section \<open>The secret key\<close>


section \<open>The checks of validateToken, one by one\<close>

lemma validateToken_three:
  assumes "s \<noteq> []" and "split_on CHR ''.'' s = [eh, ep, es]"
  shows "validateToken P now st (Some (JStr s)) =
     (case parseSegment P eh of
        Inl e \<Rightarrow> (Invalid e, st)
      | Inr header \<Rightarrow>
     (case parseSegment P ep of
        Inl e \<Rightarrow> (Invalid e, st)
      | Inr payload \<Rightarrow>
     (case js_prop header ''alg'' of
        Inl e \<Rightarrow> (Invalid e, st)
      | Inr alg \<Rightarrow>
     if alg \<noteq> Some (JStr algorithm) then (Invalid InvalidAlgorithm, st)
     else
     (case js_prop payload ''exp'' of
        Inl e \<Rightarrow> (Invalid e, st)
      | Inr exp \<Rightarrow>
     if js_truthy exp \<and> js_lt P exp (now div 1000) then (Invalid TokenExpired, st)
     else
     (case ensureSecretKey P st of
        (Inl e, st') \<Rightarrow> (Invalid e, st')
      | (Inr key, st') \<Rightarrow>
          (let data = eh @ ''.'' @ ep;
               expectedEncodedSignature = base64URLEncode P (createSignature P data key)
           in if es \<noteq> expectedEncodedSignature
              then (Invalid InvalidSignature, st')
              else (Valid payload None, st')))))))"
  using assms by (simp add: validateToken_def)

lemma validateToken_not_three:
  assumes "s \<noteq> []" and "length (split_on CHR ''.'' s) \<noteq> 3"
  shows "validateToken P now st (Some (JStr s)) = (Invalid InvalidTokenStructure, st)"
  using assms by (auto simp: validateToken_def split: list.splits)

lemma validateToken_not_string:
  "\<not> js_truthy token \<or> \<not> js_is_string token \<Longrightarrow>
     validateToken P now st token = (Invalid InvalidTokenFormat, st)"
  by (auto simp: validateToken_def)

lemma validateToken_Valid_D:
  assumes "validateToken P now st token = (Valid payload note, st')"
  shows "\<exists>encodedHeader encodedPayload encodedSignature header exp key.
           token = Some (JStr (encodedHeader @ ''.'' @ encodedPayload @ ''.'' @ encodedSignature))
         \<and> split_on CHR ''.'' (js_string_of token)
             = [encodedHeader, encodedPayload, encodedSignature]
         \<and> parseSegment P encodedHeader = Inr header
         \<and> js_prop header ''alg'' = Inr (Some (JStr algorithm))
         \<and> parseSegment P encodedPayload = Inr payload
         \<and> js_prop payload ''exp'' = Inr exp
         \<and> \<not> (js_truthy exp \<and> js_lt P exp (now div 1000))
         \<and> ensureSecretKey P st = (Inr key, st')
         \<and> encodedSignature
             = base64URLEncode P (createSignature P (encodedHeader @ ''.'' @ encodedPayload) key)
         \<and> note = None"
proof -
  have ts: "js_truthy token" "js_is_string token"
    using assms by (auto simp: validateToken_def split: if_splits)
  then obtain s where s: "token = Some (JStr s)" "s \<noteq> []"
    using token_string by blast
  have "length (split_on CHR ''.'' s) = 3"
    using assms validateToken_not_three[OF s(2), of P now st] s by auto
  then obtain eh ep es where sp: "split_on CHR ''.'' s = [eh, ep, es]"
    by (auto simp: length_Suc_conv numeral_3_eq_3)
  from split_on_three_D[OF sp] have seq: "s = eh @ ''.'' @ ep @ ''.'' @ es" by simp
  from assms show ?thesis
    unfolding s validateToken_three[OF s(2) sp]
    using sp seq
    by (auto simp: Let_def split: sum.splits if_splits prod.splits)
qed




lemma validateBasicToken_three:
  assumes "s \<noteq> []" and "split_on CHR ''.'' s = [eh, ep, es]"
  shows "validateBasicToken P now (Some (JStr s)) =
     (case parseSegment P eh of
        Inl e \<Rightarrow> Invalid e
      | Inr header \<Rightarrow>
     (case parseSegment P ep of
        Inl e \<Rightarrow> Invalid e
      | Inr payload \<Rightarrow>
     (case js_prop header ''alg'' of
        Inl e \<Rightarrow> Invalid e
      | Inr alg \<Rightarrow>
     if alg \<noteq> Some (JStr algorithm) then Invalid InvalidAlgorithm
     else
     (case js_prop payload ''exp'' of
        Inl e \<Rightarrow> Invalid e
      | Inr exp \<Rightarrow>
     if js_truthy exp \<and> js_lt P exp (now div 1000) then Invalid TokenExpired
     else Valid payload (Some signature_note)))))"
  using assms by (simp add: validateBasicToken_def)




lemma js_prop_Inl: "js_prop v k = Inl e \<Longrightarrow> v = JNull \<and> e = TypeError"
  by (cases v) auto

section \<open>Minting and validating again\<close>

lemma base64URLEncode_dot_free:
  "base64_dot_free P \<Longrightarrow> CHR ''.'' \<notin> set (base64URLEncode P s)"
  by (auto simp: base64_dot_free_def base64URLEncode_def split: if_splits)

lemma ensureSecretKey_idem:
  "ensureSecretKey P st = (Inr key, st') \<Longrightarrow> ensureSecretKey P st' = (Inr key, st')"
  by (auto simp: ensureSecretKey_def initializeSecretKey_def str_truthy_def
      split: if_splits option.splits)

lemma ensureSecretKey_stored:
  "ensureSecretKey P st = (Inr key, st') \<Longrightarrow>
     ensureSecretKey P (st'\<lparr>stored_currentJWT := t\<rparr>) = (Inr key, st'\<lparr>stored_currentJWT := t\<rparr>)"
  by (auto simp: ensureSecretKey_def initializeSecretKey_def str_truthy_def
      split: if_splits option.splits)



lemma generateToken_Inr:
  assumes "ensureSecretKey P st = (Inr key, st')"
  shows "generateToken P now st customClaims =
     (Inr (base64URLEncode P (JSON_stringify P createHeader) @ ''.'' @
           base64URLEncode P (JSON_stringify P (createPayload now customClaims)) @ ''.'' @
           base64URLEncode P (createSignature P
             (base64URLEncode P (JSON_stringify P createHeader) @ ''.'' @
              base64URLEncode P (JSON_stringify P (createPayload now customClaims))) key)), st')"
  using assms by (simp add: generateToken_def Let_def)

lemma generateToken_Inl:
  assumes "ensureSecretKey P st = (Inl e, st')"
  shows "generateToken P now st customClaims = (Inl e, st')"
  using assms by (simp add: generateToken_def)

lemma validate_generated:
  assumes key: "ensureSecretKey P st = (Inr key, st)"
    and rt: "base64_dot_free P" "segment_ok P createHeader" "segment_ok P payload"
    and exp: "js_prop payload ''exp'' = Inr exp"
  shows "validateToken P t st
     (Some (JStr (base64URLEncode P (JSON_stringify P createHeader) @ ''.'' @
           base64URLEncode P (JSON_stringify P payload) @ ''.'' @
           base64URLEncode P (createSignature P
             (base64URLEncode P (JSON_stringify P createHeader) @ ''.'' @
              base64URLEncode P (JSON_stringify P payload)) key))))
     = (if js_truthy exp \<and> js_lt P exp (t div 1000) then Invalid TokenExpired
        else Valid payload None, st)"
proof -
  let ?h = "base64URLEncode P (JSON_stringify P createHeader)"
  let ?p = "base64URLEncode P (JSON_stringify P payload)"
  let ?s = "base64URLEncode P (createSignature P (?h @ ''.'' @ ?p) key)"
  have sp: "split_on CHR ''.'' (?h @ ''.'' @ ?p @ ''.'' @ ?s) = [?h, ?p, ?s]"
    using split_on_three[of "CHR ''.''" ?h ?p ?s] base64URLEncode_dot_free[OF rt(1)] by simp
  have ne: "?h @ ''.'' @ ?p @ ''.'' @ ?s \<noteq> []" by simp
  have h: "parseSegment P ?h = Inr createHeader" and p: "parseSegment P ?p = Inr payload"
    using rt(2,3) by (simp_all add: segment_ok_def)
  have alg: "js_prop createHeader ''alg'' = Inr (Some (JStr algorithm))"
    by (simp add: createHeader_def)
  show ?thesis
    unfolding validateToken_three[OF ne sp]
    by (simp add: h p alg exp key)
qed



lemma ensureSecretKey_ready:
  "storage_available st \<or> str_truthy (secretKey st) \<Longrightarrow>
     \<exists>key st'. ensureSecretKey P st = (Inr key, st')"
  by (auto simp: ensureSecretKey_def initializeSecretKey_def)

lemma extractPayload_valid:
  assumes "validateToken P a st token = (Valid payload note, st')"
  shows "extractPayload P token = payload"
proof -
  from validateToken_Valid_D[OF assms] obtain eh ep es where d:
    "token = Some (JStr (eh @ ''.'' @ ep @ ''.'' @ es))"
    "split_on CHR ''.'' (js_string_of token) = [eh, ep, es]"
    "parseSegment P ep = Inr payload"
    by blast
  then show ?thesis
    by (simp add: extractPayload_def)
qed


section \<open>The cache of getValidToken\<close>

lemma getValidToken_reuse:
  assumes "storage_available st" and "stored_currentJWT st = Some tok" and "tok \<noteq> []"
    and "validateToken P now_v st (Some (JStr tok)) = (Valid payload note, st')"
    and "\<not> needsRefresh P now_r payload"
  shows "getValidToken P now_v now_r now_g st customClaims = (Inr tok, st')"
  using assms by (simp add: getValidToken_def str_truthy_def)

lemma getValidToken_mint_empty:
  assumes "storage_available st" and "\<not> str_truthy (stored_currentJWT st)"
  shows "getValidToken P now_v now_r now_g st customClaims =
     (case generateToken P now_g st customClaims of
        (Inl e, st2) \<Rightarrow> (Inl e, st2)
      | (Inr newToken, st2) \<Rightarrow> (Inr newToken, st2\<lparr>stored_currentJWT := Some newToken\<rparr>))"
  using assms by (simp add: getValidToken_def)


lemma createPayload_exp:
  "''exp'' \<notin> fst ` set customClaims \<Longrightarrow>
     js_prop (createPayload now customClaims) ''exp'' = Inr (Some (JNum (now div 1000 + 900)))"
proof -
  assume "''exp'' \<notin> fst ` set customClaims"
  then have "''exp'' \<notin> fst ` set (rev customClaims)" by simp
  then have "map_of (rev customClaims) ''exp'' = None"
    by (simp add: map_of_eq_None_iff)
  then show ?thesis
    by (simp add: createPayload_def map_of_obj_spread tokenExpiry_def)
qed

lemma createPayload_custom:
  assumes "distinct (map fst customClaims)" and "(k, v) \<in> set customClaims"
  shows "js_prop (createPayload now customClaims) k = Inr (Some v)"
proof -
  have "distinct (map fst (rev customClaims))" and "(k, v) \<in> set (rev customClaims)"
    using assms by (simp_all add: rev_map[symmetric])
  then have "map_of (rev customClaims) k = Some v"
    by (rule map_of_is_SomeI)
  then show ?thesis
    by (simp add: createPayload_def map_of_obj_spread)
qed

lemma needsRefresh_numeric:
  "js_prop payload ''exp'' = Inr (Some (JNum e)) \<Longrightarrow>
     needsRefresh P now payload = (e = 0 \<or> e - now div 1000 < 120)"
  by (cases payload) (auto simp: needsRefresh_def js_minus_def)








lemma onGetJWTToken_reuse:
  assumes "storage_available st" and "stored_currentJWT st = Some tok" and "tok \<noteq> []"
    and "validateToken P now_v st (Some (JStr tok)) = (Valid payload note, st')"
    and "\<not> needsRefresh P now_r payload"
  shows "onGetJWTToken P now_v now_r now_g (True, st) customClaims = (TokenSuccess tok, (True, st'))"
  using getValidToken_reuse[OF assms] by (simp add: onGetJWTToken_def)

section \<open>The calls of inject.js\<close>

lemma downloadAudio_no_validation:
  "CallValidateBasicToken \<notin> set (snd (downloadAudio W dm messageId storeMsg))
   \<and> (\<forall>e. fst (downloadAudio W dm messageId storeMsg)
            \<noteq> Rejected (ThrownString (JWTValidationFailed e)))
   \<and> (\<forall>t. fst (downloadAudio W dm messageId storeMsg) = Rejected t \<longrightarrow> js_message t = None)"
proof -
  define Q :: "(string option \<times> string) settled \<times> call list \<Rightarrow> bool" where
    "Q = (\<lambda>x. CallValidateBasicToken \<notin> set (snd x)
        \<and> (\<forall>e. fst x \<noteq> Rejected (ThrownString (JWTValidationFailed e)))
        \<and> (\<forall>t. fst x = Rejected t \<longrightarrow> js_message t = None))"
  have q [simp]:
    "\<And>m. Q (Rejected (ThrownString (MediaPropertiesMissing m)), [])"
    "\<And>m. Q (Rejected (ThrownString (NotAudioMessage m)), [])"
    "\<And>d r. Q (Rejected (ThrownString (DownloadError d)), [CallDownload r])"
    "\<And>r. Q (Rejected ThrownProgressEvent, [CallDownload r, CallReadAsDataURL])"
    "\<And>r. Q (Rejected (ThrownString BlobConversionFailed), [CallDownload r, CallReadAsDataURL])"
    "\<And>r a. Q (Resolved a, [CallDownload r, CallReadAsDataURL])"
    by (simp_all add: Q_def)
  have "Q (downloadAudio W dm messageId storeMsg)"
    unfolding downloadAudio_def Let_def
    by (simp split: option.split sum.split read_result.split)
  then show ?thesis by (simp add: Q_def)
qed

lemma resolveMsgKey_no_validation:
  "CallValidateBasicToken \<notin> set (snd (resolveMsgKey get widFactory messageId))"
  by (auto simp: resolveMsgKey_def Let_def split: option.splits)

lemma accessStore_no_validation:
  "CallValidateBasicToken \<notin> set (snd (accessStore W messageId))
   \<and> (\<forall>e. fst (accessStore W messageId) \<noteq> Rejected (ThrownString (JWTValidationFailed e)))
   \<and> (\<forall>t. fst (accessStore W messageId) = Rejected t \<longrightarrow> js_message t = None)"
proof (cases "\<exists>S get dm. Store W = Some S \<and> Msg S = Some get \<and> DownloadManager S = Some dm")
  case False
  then show ?thesis
    by (auto simp: accessStore_def split: option.splits)
next
  case True
  then obtain S get dm
    where S: "Store W = Some S" "Msg S = Some get" "DownloadManager S = Some dm"
    by blast
  obtain msgKey calls where r: "resolveMsgKey get (WidFactory S) messageId = (msgKey, calls)"
    by (cases "resolveMsgKey get (WidFactory S) messageId")
  have c: "CallValidateBasicToken \<notin> set calls"
    using resolveMsgKey_no_validation[of get "WidFactory S" messageId] r by simp
  show ?thesis
  proof (cases "get msgKey")
    case None
    with S r c show ?thesis by (simp add: accessStore_def)
  next
    case (Some storeMsg)
    obtain res calls' where d: "downloadAudio W dm messageId storeMsg = (res, calls')"
      by (cases "downloadAudio W dm messageId storeMsg")
    from downloadAudio_no_validation[of W dm messageId storeMsg] d
    have "CallValidateBasicToken \<notin> set calls'"
      "\<forall>e. res \<noteq> Rejected (ThrownString (JWTValidationFailed e))"
      "\<forall>t. res = Rejected t \<longrightarrow> js_message t = None"
      by simp_all
    with S r c Some d show ?thesis by (simp add: accessStore_def)
  qed
qed

lemma initializeStoreWithJWT_without_class:
  "\<not> pageJWTUtils W \<Longrightarrow> \<not> window_PageJWTUtils W \<Longrightarrow> \<not> pageJWTUtils (initializeStoreWithJWT W)"
  by (simp add: initializeStoreWithJWT_def split: option.splits)

lemma getWhatsAppAudioData_message:
  "fst (getWhatsAppAudioData P now W messageId jwtToken) = Rejected t \<Longrightarrow> js_message t = None"
  using accessStore_no_validation[of W messageId]
  by (auto simp: getWhatsAppAudioData_def split: if_splits validation.splits prod.splits)

section \<open>Base64 of the reference runtime\<close>

lemma b64_char_in_alphabet: "b64_char n \<in> set b64_alphabet"
proof -
  have "nat (n mod 64) < length b64_alphabet"
    by (simp add: b64_alphabet_def nat_less_iff)
  then show ?thesis
    unfolding b64_char_def by (rule nth_mem)
qed

lemma b64_char_not_dot: "b64_char n \<noteq> CHR ''.''"
proof -
  have "CHR ''.'' \<notin> set b64_alphabet"
    by (simp add: b64_alphabet_def)
  with b64_char_in_alphabet[of n] show ?thesis by metis
qed

lemma ref_btoa_dot_free: "CHR ''.'' \<notin> set (ref_btoa s)"
  by (induction s rule: ref_btoa.induct) (simp_all add: Let_def b64_char_not_dot not_sym[OF b64_char_not_dot])

lemma ref_runtime_dot_free: "base64_dot_free ref_runtime"
  by (simp add: base64_dot_free_def ref_runtime_def ref_btoa_dot_free)

section \<open>Evaluating the reference runtime\<close>

lemma ref_ensureSecretKey:
  "ensureSecretKey ref_runtime example_state = (Inr ''s3cr3t'', example_state)"
  by (simp add: ensureSecretKey_def example_state_def str_truthy_def)



lemma ref_basic_expired:
  "validateBasicToken ref_runtime 1000000
     (Some (JStr ''eyJhbGciOiJIUzI1NiIsInR5cCI6IkpXVCJ9.eyJleHAiOjV9.B48'')) = Invalid TokenExpired"
  by code_simp

lemma ref_expired_parts:
  "split_on CHR ''.'' ''eyJhbGciOiJIUzI1NiIsInR5cCI6IkpXVCJ9.eyJleHAiOjV9.B48''
     = [''eyJhbGciOiJIUzI1NiIsInR5cCI6IkpXVCJ9'', ''eyJleHAiOjV9'', ''B48'']"
  by simp

lemma ref_header_segment:
  "parseSegment ref_runtime ''eyJhbGciOiJIUzI1NiIsInR5cCI6IkpXVCJ9'' = Inr createHeader"
  by code_simp

lemma ref_exp5_segment:
  "parseSegment ref_runtime ''eyJleHAiOjV9'' = Inr (JObj [(''exp'', JNum 5)])"
  by code_simp

lemma ref_download_without_validator:
  "getWhatsAppAudioData ref_runtime 1000000 (example_window False (Some example_store)) ''MSG1''
     (Some (JStr ''eyJhbGciOiJIUzI1NiIsInR5cCI6IkpXVCJ9.eyJleHAiOjV9.B48''))
   = (Resolved (Some ''QUJD'', ''audio/ogg''),
      [CallMsgGet (KeyString ''MSG1''), CallMsgGet (KeyString ''MSG1''),
       CallDownload \<lparr>ref_directPath = Some ''/v/t62'', ref_encFilehash = Some ''ZW5j'',
         ref_filehash = Some ''cGxhaW4'', ref_mediaKey = Some ''a2V5'',
         ref_mediaKeyTimestamp = Some 1000, ref_type = ''ptt''\<rparr>,
       CallReadAsDataURL])"
  by code_simp

lemma ref_access_store:
  "accessStore (example_window False (Some example_store)) ''MSG1''
   = (Resolved (Some ''QUJD'', ''audio/ogg''),
      [CallMsgGet (KeyString ''MSG1''), CallMsgGet (KeyString ''MSG1''),
       CallDownload \<lparr>ref_directPath = Some ''/v/t62'', ref_encFilehash = Some ''ZW5j'',
         ref_filehash = Some ''cGxhaW4'', ref_mediaKey = Some ''a2V5'',
         ref_mediaKeyTimestamp = Some 1000, ref_type = ''ptt''\<rparr>,
       CallReadAsDataURL])"
  by code_simp









lemma ref_url_alphabet:
  "base64URLEncode ref_runtime [CHR 0xFB, CHR 0xFF] = ''-_8''
   \<and> base64URLDecode ref_runtime ''-_8'' = Some [CHR 0xFB, CHR 0xFF]"
  by code_simp


lemma ref_header_ok: "segment_ok ref_runtime createHeader"
  by code_simp

lemma ref_payload_ok: "segment_ok ref_runtime (createPayload 1000000 example_claims)"
  by code_simp

lemma ref_generate_example:
  "generateToken ref_runtime 1000000 example_state example_claims
   = (Inr example_token, example_state)"
  by code_simp

lemma ref_generate_exp_1:
  "generateToken ref_runtime 1000000 example_state [(''exp'', JNum 1)]
   = (Inr example_token_exp_1, example_state)"
  by code_simp

lemma ref_validate_exp_1:
  "validateToken ref_runtime 1000000 example_state (Some (JStr example_token_exp_1))
   = (Invalid TokenExpired, example_state)"
  by code_simp

lemma ref_example_token:
  "example_token =
     base64URLEncode ref_runtime (JSON_stringify ref_runtime createHeader) @ ''.'' @
     base64URLEncode ref_runtime (JSON_stringify ref_runtime (createPayload 1000000 example_claims))
     @ ''.'' @
     base64URLEncode ref_runtime (createSignature ref_runtime
       (base64URLEncode ref_runtime (JSON_stringify ref_runtime createHeader) @ ''.'' @
        base64URLEncode ref_runtime
          (JSON_stringify ref_runtime (createPayload 1000000 example_claims))) ''s3cr3t'')"
  using generateToken_Inr[OF ref_ensureSecretKey, of 1000000 example_claims] ref_generate_example
  by simp

lemma ref_example_exp:
  "js_prop (createPayload 1000000 example_claims) ''exp'' = Inr (Some (JNum 1900))"
  using createPayload_exp[of example_claims 1000000] by (simp add: example_claims_def)

lemma ref_cached_key:
  "ensureSecretKey ref_runtime example_cached_state = (Inr ''s3cr3t'', example_cached_state)"
  unfolding example_cached_state_def by (rule ensureSecretKey_stored[OF ref_ensureSecretKey])

lemma ref_validate_cached:
  "validateToken ref_runtime 1001000 example_cached_state (Some (JStr example_token))
   = (Valid (createPayload 1000000 example_claims) None, example_cached_state)"
  unfolding ref_example_token
  using validate_generated[OF ref_cached_key ref_runtime_dot_free ref_header_ok ref_payload_ok
      ref_example_exp, of 1001000]
  by (simp add: js_lt_def)


lemma ref_extract_example:
  "extractPayload ref_runtime (Some (JStr example_token)) = createPayload 1000000 example_claims"
  by (rule extractPayload_valid[OF ref_validate_cached])



section \<open>C3: custom claims and the reserved fields\<close>



section \<open>C2: what a valid token satisfies\<close>




section \<open>C7: an expired token and the download\<close>

text \<open>
  C7 (as stated: for every request whose token's \<open>exp\<close> is in the past, the download is never
  invoked). The token below has \<open>exp = 5\<close> and the time is 1000 seconds; on a page where
  \<open>pageJWTUtils\<close> was never set the request is served and the download function is called.
\<close>

theorem expired_token_without_validator_counterexample:
  "validateBasicToken ref_runtime 1000000
     (Some (JStr ''eyJhbGciOiJIUzI1NiIsInR5cCI6IkpXVCJ9.eyJleHAiOjV9.B48'')) = Invalid TokenExpired
   \<and> getWhatsAppAudioData ref_runtime 1000000 (example_window False (Some example_store)) ''MSG1''
       (Some (JStr ''eyJhbGciOiJIUzI1NiIsInR5cCI6IkpXVCJ9.eyJleHAiOjV9.B48''))
     = (Resolved (Some ''QUJD'', ''audio/ogg''),
        [CallMsgGet (KeyString ''MSG1''), CallMsgGet (KeyString ''MSG1''),
         CallDownload \<lparr>ref_directPath = Some ''/v/t62'', ref_encFilehash = Some ''ZW5j'',
           ref_filehash = Some ''cGxhaW4'', ref_mediaKey = Some ''a2V5'',
           ref_mediaKeyTimestamp = Some 1000, ref_type = ''ptt''\<rparr>,
         CallReadAsDataURL])"
  using ref_basic_expired ref_download_without_validator by (rule conjI)

text \<open>
  C7 (amended): when the page's validator is loaded (\<open>pageJWTUtils\<close> is set) and the token
  has three segments, a header with \<open>alg\<close> HS256 and a payload whose \<open>exp\<close> is a number
  other than 0 and less than the current time in whole seconds, \<open>getWhatsAppAudioData\<close>
  rejects with 'JWT token validation failed: Token expired' and calls neither the store nor
  the download function.
\<close>

theorem expired_token_short_circuit:
  assumes "pageJWTUtils W"
    and "split_on CHR ''.'' s = [encodedHeader, encodedPayload, encodedSignature]"
    and "parseSegment P encodedHeader = Inr header"
    and "js_prop header ''alg'' = Inr (Some (JStr ''HS256''))"
    and "parseSegment P encodedPayload = Inr payload"
    and "js_prop payload ''exp'' = Inr (Some (JNum n))"
    and "n \<noteq> 0" and "n < now div 1000"
  shows "getWhatsAppAudioData P now W messageId (Some (JStr s))
         = (Rejected (ThrownString (JWTValidationFailed TokenExpired)), [CallValidateBasicToken])
       \<and> (\<forall>r. CallDownload r \<notin> set (snd (getWhatsAppAudioData P now W messageId (Some (JStr s)))))"
proof -
  have ne: "s \<noteq> []" using assms(2) by auto
  have "validateBasicToken P now (Some (JStr s)) = Invalid TokenExpired"
    using assms(3-8)
    by (simp add: validateBasicToken_three[OF ne assms(2)] algorithm_def js_lt_def)
  then show ?thesis
    using assms(1) ne by (simp add: getWhatsAppAudioData_def)
qed

theorem expired_token_short_circuit_witness:
  "pageJWTUtils (example_window True (Some example_store))
   \<and> split_on CHR ''.'' ''eyJhbGciOiJIUzI1NiIsInR5cCI6IkpXVCJ9.eyJleHAiOjV9.B48''
       = [''eyJhbGciOiJIUzI1NiIsInR5cCI6IkpXVCJ9'', ''eyJleHAiOjV9'', ''B48'']
   \<and> parseSegment ref_runtime ''eyJhbGciOiJIUzI1NiIsInR5cCI6IkpXVCJ9'' = Inr createHeader
   \<and> js_prop createHeader ''alg'' = Inr (Some (JStr ''HS256''))
   \<and> parseSegment ref_runtime ''eyJleHAiOjV9'' = Inr (JObj [(''exp'', JNum 5)])
   \<and> js_prop (JObj [(''exp'', JNum 5)]) ''exp'' = Inr (Some (JNum 5))
   \<and> (5 :: int) \<noteq> 0 \<and> (5 :: int) < 1000000 div 1000
   \<and> getWhatsAppAudioData ref_runtime 1000000 (example_window True (Some example_store)) ''MSG1''
        (Some (JStr ''eyJhbGciOiJIUzI1NiIsInR5cCI6IkpXVCJ9.eyJleHAiOjV9.B48''))
      = (Rejected (ThrownString (JWTValidationFailed TokenExpired)), [CallValidateBasicToken])"
proof -
  have w: "pageJWTUtils (example_window True (Some example_store))"
    by (simp add: example_window_def)
  have a: "js_prop createHeader ''alg'' = Inr (Some (JStr ''HS256''))"
    by (simp add: createHeader_def algorithm_def)
  have e: "js_prop (JObj [(''exp'', JNum 5)]) ''exp'' = Inr (Some (JNum 5))"
    by simp
  have n: "(5 :: int) \<noteq> 0" "(5 :: int) < 1000000 div 1000"
    by simp_all
  from expired_token_short_circuit[OF w ref_expired_parts ref_header_segment a ref_exp5_segment e n]
  have "getWhatsAppAudioData ref_runtime 1000000 (example_window True (Some example_store)) ''MSG1''
          (Some (JStr ''eyJhbGciOiJIUzI1NiIsInR5cCI6IkpXVCJ9.eyJleHAiOjV9.B48''))
        = (Rejected (ThrownString (JWTValidationFailed TokenExpired)), [CallValidateBasicToken])"
    by (rule conjunct1)
  with w ref_expired_parts ref_header_segment a ref_exp5_segment e n show ?thesis
    by (intro conjI)
qed

section \<open>C9: requests that are not validated\<close>

text \<open>
  C9: when \<open>pageJWTUtils\<close> is not set, or the request carries no token (none, or a falsy
  one), \<open>getWhatsAppAudioData\<close> does exactly what the lookup and download of lines 77 to
  165 do: \<open>validateBasicToken\<close> is not called and no token validation error is returned.
\<close>

theorem no_validation_without_validator:
  assumes "\<not> pageJWTUtils W \<or> \<not> js_truthy jwtToken"
  shows "getWhatsAppAudioData P now W messageId jwtToken = accessStore W messageId
       \<and> CallValidateBasicToken \<notin> set (snd (getWhatsAppAudioData P now W messageId jwtToken))
       \<and> (\<forall>e. fst (getWhatsAppAudioData P now W messageId jwtToken)
                \<noteq> Rejected (ThrownString (JWTValidationFailed e)))"
proof -
  have "getWhatsAppAudioData P now W messageId jwtToken = accessStore W messageId"
    using assms by (auto simp: getWhatsAppAudioData_def)
  with accessStore_no_validation[of W messageId] show ?thesis by simp
qed

theorem no_validation_without_validator_witness:
  "pageJWTUtils (example_window False (Some example_store)) = False
   \<and> getWhatsAppAudioData ref_runtime 1000000 (example_window False (Some example_store)) ''MSG1''
        (Some (JStr ''eyJhbGciOiJIUzI1NiIsInR5cCI6IkpXVCJ9.eyJleHAiOjV9.B48''))
      = accessStore (example_window False (Some example_store)) ''MSG1''
   \<and> accessStore (example_window False (Some example_store)) ''MSG1''
      = (Resolved (Some ''QUJD'', ''audio/ogg''),
         [CallMsgGet (KeyString ''MSG1''), CallMsgGet (KeyString ''MSG1''),
          CallDownload \<lparr>ref_directPath = Some ''/v/t62'', ref_encFilehash = Some ''ZW5j'',
            ref_filehash = Some ''cGxhaW4'', ref_mediaKey = Some ''a2V5'',
            ref_mediaKeyTimestamp = Some 1000, ref_type = ''ptt''\<rparr>,
          CallReadAsDataURL])"
proof -
  have h: "\<not> pageJWTUtils (example_window False (Some example_store))
      \<or> \<not> js_truthy (Some (JStr ''eyJhbGciOiJIUzI1NiIsInR5cCI6IkpXVCJ9.eyJleHAiOjV9.B48''))"
    by (simp add: example_window_def)
  from no_validation_without_validator[OF h, of ref_runtime 1000000 "''MSG1''"]
  have "getWhatsAppAudioData ref_runtime 1000000 (example_window False (Some example_store)) ''MSG1''
        (Some (JStr ''eyJhbGciOiJIUzI1NiIsInR5cCI6IkpXVCJ9.eyJleHAiOjV9.B48''))
      = accessStore (example_window False (Some example_store)) ''MSG1''"
    by (rule conjunct1)
  moreover have "pageJWTUtils (example_window False (Some example_store)) = False"
    by (simp add: example_window_def)
  ultimately show ?thesis using ref_access_store by (intro conjI)
qed

section \<open>C6: the response to a failed request\<close>

text \<open>
  C6: every failure of \<open>getWhatsAppAudioData\<close> rejects with a value that has no \<open>message\<close>
  (a string, or the reader's event), so the \<open>error\<close> of every error response is
  \<open>undefined\<close>.
\<close>

lemma error_response_never_has_reason:
  assumes "ErrorResponse m e \<in> set (onGetAudioData P now W detail)"
  shows "e = None"
proof (cases detail)
  case None
  then show ?thesis
    using assms by (simp add: onGetAudioData_def)
next
  case (Some request)
  obtain messageId jwtToken where request: "request = (messageId, jwtToken)"
    by (cases request)
  show ?thesis
  proof (cases "fst (getWhatsAppAudioData P now W messageId jwtToken)")
    case (Resolved audio)
    then show ?thesis
      using assms Some request by (cases audio) (simp add: onGetAudioData_def)
  next
    case (Rejected error)
    then show ?thesis
      using assms Some request getWhatsAppAudioData_message[OF Rejected]
      by (simp add: onGetAudioData_def)
  qed
qed

text \<open>
  C6 (the failing input): the message MSG2 is not in the store. \<open>getWhatsAppAudioData\<close>
  rejects with the string 'Message not found in WhatsApp store with ID: MSG2', and the
  response that the listener dispatches is \<open>{ messageId: 'MSG2', error: undefined }\<close>.
\<close>

theorem error_response_without_reason:
  "fst (getWhatsAppAudioData ref_runtime 1000000 (example_window True (Some example_store)) ''MSG2'' None)
     = Rejected (ThrownString (MessageNotFound ''MSG2''))
   \<and> onGetAudioData ref_runtime 1000000 (example_window True (Some example_store))
       (Some (''MSG2'', None))
     = [ErrorResponse ''MSG2'' None]"
  by code_simp

section \<open>C4: the classes of failure\<close>




section \<open>C1: minting and then validating\<close>

text \<open>
  C1 (as stated: for every set of custom claims, the minted token validates within the
  lifetime window). For the custom claims \<open>{exp: 1}\<close> the token minted at
  \<open>Date.now() = 1000000\<close> is rejected as expired at that very moment.
\<close>

theorem token_round_trip_counterexample:
  "generateToken ref_runtime 1000000 example_state [(''exp'', JNum 1)]
     = (Inr example_token_exp_1, example_state)
   \<and> validateToken ref_runtime 1000000 example_state (Some (JStr example_token_exp_1))
     = (Invalid TokenExpired, example_state)
   \<and> (1000000 :: int) div 1000 \<le> 1000000 div 1000 + 900"
  using ref_generate_exp_1 ref_validate_exp_1 by simp

text \<open>
  C1 (amended): let the secret be available, the runtime's Base64 be free of dots and its codec
  return the header and the payload unchanged. For custom claims without the field \<open>exp\<close>
  (each field given once) and a time \<open>t\<close> whose whole seconds are at most those of the minting
  plus 900, \<open>generateToken\<close> returns a token, \<open>validateToken\<close> at time \<open>t\<close> under the
  same secret returns \<open>valid: true\<close> with the payload that was signed, and each custom field
  of that payload has the value that was passed.
\<close>

theorem token_round_trip:
  assumes "storage_available st \<or> str_truthy (secretKey st)"
    and "base64_dot_free P" and "segment_ok P createHeader"
    and "segment_ok P (createPayload now customClaims)"
    and "''exp'' \<notin> fst ` set customClaims" and "distinct (map fst customClaims)"
    and "t div 1000 \<le> now div 1000 + 900"
  shows "\<exists>token st'.
           generateToken P now st customClaims = (Inr token, st')
         \<and> validateToken P t st' (Some (JStr token))
             = (Valid (createPayload now customClaims) None, st')
         \<and> (\<forall>(k, v) \<in> set customClaims.
               js_prop (createPayload now customClaims) k = Inr (Some v))"
proof -
  from ensureSecretKey_ready[OF assms(1)] obtain key st'
    where key: "ensureSecretKey P st = (Inr key, st')" by blast
  note exp = createPayload_exp[OF assms(5), of now]
  have "validateToken P t st'
     (Some (JStr (base64URLEncode P (JSON_stringify P createHeader) @ ''.'' @
           base64URLEncode P (JSON_stringify P (createPayload now customClaims)) @ ''.'' @
           base64URLEncode P (createSignature P
             (base64URLEncode P (JSON_stringify P createHeader) @ ''.'' @
              base64URLEncode P (JSON_stringify P (createPayload now customClaims))) key))))
     = (Valid (createPayload now customClaims) None, st')"
    using validate_generated[OF ensureSecretKey_idem[OF key] assms(2,3,4) exp, of t] assms(7)
    by (simp add: js_lt_def)
  moreover have "\<forall>(k, v) \<in> set customClaims.
      js_prop (createPayload now customClaims) k = Inr (Some v)"
    using createPayload_custom[OF assms(6)] by blast
  ultimately show ?thesis
    using generateToken_Inr[OF key, of now customClaims] by blast
qed

theorem token_round_trip_witness:
  "(storage_available example_state \<or> str_truthy (secretKey example_state))
   \<and> base64_dot_free ref_runtime
   \<and> segment_ok ref_runtime createHeader
   \<and> segment_ok ref_runtime (createPayload 1000000 example_claims)
   \<and> ''exp'' \<notin> fst ` set example_claims
   \<and> distinct (map fst example_claims)
   \<and> (1500000 :: int) div 1000 \<le> 1000000 div 1000 + 900
   \<and> generateToken ref_runtime 1000000 example_state example_claims
       = (Inr example_token, example_state)
   \<and> validateToken ref_runtime 1500000 example_state (Some (JStr example_token))
       = (Valid (createPayload 1000000 example_claims) None, example_state)
   \<and> js_prop (createPayload 1000000 example_claims) ''messageId'' = Inr (Some (JStr ''MSG1''))"
proof -
  have a: "storage_available example_state \<or> str_truthy (secretKey example_state)"
    by (simp add: example_state_def)
  have c: "''exp'' \<notin> fst ` set example_claims" "distinct (map fst example_claims)"
    by (simp_all add: example_claims_def)
  have t: "(1500000 :: int) div 1000 \<le> 1000000 div 1000 + 900"
    by simp
  from token_round_trip[OF a ref_runtime_dot_free ref_header_ok ref_payload_ok c t]
  obtain token st' where r:
    "generateToken ref_runtime 1000000 example_state example_claims = (Inr token, st')"
    "validateToken ref_runtime 1500000 st' (Some (JStr token))
       = (Valid (createPayload 1000000 example_claims) None, st')"
    "\<forall>(k, v) \<in> set example_claims.
       js_prop (createPayload 1000000 example_claims) k = Inr (Some v)"
    by blast
  from r(1) ref_generate_example have eq: "token = example_token" "st' = example_state"
    by simp_all
  have m: "js_prop (createPayload 1000000 example_claims) ''messageId'' = Inr (Some (JStr ''MSG1''))"
    using r(3) by (simp add: example_claims_def)
  show ?thesis
    using r(2) unfolding eq
    by (intro conjI) (rule a ref_runtime_dot_free ref_header_ok ref_payload_ok c t
        ref_generate_example m | assumption)+
qed

section \<open>C10: the cached token and the requested claims\<close>

text \<open>
  C10: when the stored token validates and does not need a refresh, \<open>getValidToken\<close> returns
  it whatever custom claims the call was given; the claims in the returned token are those of
  its own payload, that is, of the request it was minted for.
\<close>

theorem getValidToken_ignores_custom_claims:
  assumes "storage_available st" and "stored_currentJWT st = Some token" and "token \<noteq> []"
    and "validateToken P now_v st (Some (JStr token)) = (Valid payload note, st')"
    and "\<not> needsRefresh P now_r payload"
  shows "(\<forall>customClaims. getValidToken P now_v now_r now_g st customClaims = (Inr token, st'))
       \<and> extractPayload P (Some (JStr token)) = payload"
  using getValidToken_reuse[OF assms] extractPayload_valid[OF assms(4)] by blast

text \<open>
  The second of two calls: the first asked for MSG1, the second, a second later, asks for MSG2
  and receives the token of the first, whose \<open>messageId\<close> is MSG1.
\<close>

theorem getValidToken_ignores_custom_claims_witness:
  "storage_available example_cached_state
   \<and> stored_currentJWT example_cached_state = Some example_token
   \<and> example_token \<noteq> []
   \<and> validateToken ref_runtime 1001000 example_cached_state (Some (JStr example_token))
       = (Valid (createPayload 1000000 example_claims) None, example_cached_state)
   \<and> \<not> needsRefresh ref_runtime 1001000 (createPayload 1000000 example_claims)
   \<and> getValidToken ref_runtime 1000000 1000000 1000000 example_state example_claims
       = (Inr example_token, example_cached_state)
   \<and> getValidToken ref_runtime 1001000 1001000 1001000 example_cached_state
        [(''messageId'', JStr ''MSG2'')]
       = (Inr example_token, example_cached_state)
   \<and> extractPayload ref_runtime (Some (JStr example_token)) = createPayload 1000000 example_claims
   \<and> js_prop (createPayload 1000000 example_claims) ''messageId'' = Inr (Some (JStr ''MSG1''))"
proof -
  have a: "storage_available example_cached_state"
    "stored_currentJWT example_cached_state = Some example_token"
    by (simp_all add: example_cached_state_def example_state_def)
  have n: "example_token \<noteq> []"
    by (simp add: example_token_def)
  have f: "\<not> needsRefresh ref_runtime 1001000 (createPayload 1000000 example_claims)"
    by (simp add: needsRefresh_numeric[OF ref_example_exp])
  have first: "getValidToken ref_runtime 1000000 1000000 1000000 example_state example_claims
       = (Inr example_token, example_cached_state)"
    using getValidToken_mint_empty[of example_state ref_runtime 1000000 1000000 1000000 example_claims]
      ref_generate_example
    by (simp add: example_state_def example_cached_state_def str_truthy_def)
  have m: "js_prop (createPayload 1000000 example_claims) ''messageId'' = Inr (Some (JStr ''MSG1''))"
    using createPayload_custom[of example_claims "''messageId''" "JStr ''MSG1''" 1000000]
    by (simp add: example_claims_def)
  note c = getValidToken_ignores_custom_claims[OF a n ref_validate_cached f, of 1001000]
  have second: "getValidToken ref_runtime 1001000 1001000 1001000 example_cached_state
        [(''messageId'', JStr ''MSG2'')] = (Inr example_token, example_cached_state)"
    using c by blast
  have p: "extractPayload ref_runtime (Some (JStr example_token))
      = createPayload 1000000 example_claims"
    using c by blast
  show ?thesis
    by (intro conjI) (rule a n ref_validate_cached f first second p m)+
qed

section \<open>C5: the caching law of getValidToken\<close>




end
